theory Spec2Isabelle
  imports Main "HOL-Library.AList"
begin

section \<open>Text\<close>

text \<open>
  A JavaScript string is modelled as a \<^typ>\<open>string\<close>: a list of 8-bit characters, read
  as the code units U+0000 .. U+00FF. The functions of this section are the library
  operations of the platform that \<^verbatim>\<open>src/api/lmStudioApi.ts\<close> calls on strings, restricted
  to these code units.
\<close>

definition LF :: string where
  "LF = [CHR 0x0A]"

definition DQ :: string where
  "DQ = [CHR 0x22]"

text \<open>The characters a regular expression's \<^verbatim>\<open>.\<close> does not match without the \<^verbatim>\<open>s\<close> flag.\<close>

definition is_line_terminator :: "char \<Rightarrow> bool" where
  "is_line_terminator c = (c = CHR 0x0A \<or> c = CHR 0x0D)"

text \<open>The white space of regular expressions, which is also what \<^verbatim>\<open>trim()\<close> removes.\<close>

definition is_white_space :: "char \<Rightarrow> bool" where
  "is_white_space c =
     (c = CHR 0x09 \<or> c = CHR 0x0A \<or> c = CHR 0x0B \<or> c = CHR 0x0C \<or> c = CHR 0x0D
      \<or> c = CHR 0x20 \<or> c = CHR 0xA0)"

text \<open>
  The letters among the code units that have a lower-case and an upper-case form which
  are single code units of the range, in matching order: the 26 letters of ASCII, and
  U+00E0 .. U+00FE without U+00F7 against U+00C0 .. U+00DE without U+00D7.
\<close>

definition lower_case_letters :: string where
  "lower_case_letters =
     ''abcdefghijklmnopqrstuvwxyz'' @
     [CHR 0xE0, CHR 0xE1, CHR 0xE2, CHR 0xE3, CHR 0xE4, CHR 0xE5, CHR 0xE6, CHR 0xE7,
      CHR 0xE8, CHR 0xE9, CHR 0xEA, CHR 0xEB, CHR 0xEC, CHR 0xED, CHR 0xEE, CHR 0xEF,
      CHR 0xF0, CHR 0xF1, CHR 0xF2, CHR 0xF3, CHR 0xF4, CHR 0xF5, CHR 0xF6, CHR 0xF8,
      CHR 0xF9, CHR 0xFA, CHR 0xFB, CHR 0xFC, CHR 0xFD, CHR 0xFE]"

definition upper_case_letters :: string where
  "upper_case_letters =
     ''ABCDEFGHIJKLMNOPQRSTUVWXYZ'' @
     [CHR 0xC0, CHR 0xC1, CHR 0xC2, CHR 0xC3, CHR 0xC4, CHR 0xC5, CHR 0xC6, CHR 0xC7,
      CHR 0xC8, CHR 0xC9, CHR 0xCA, CHR 0xCB, CHR 0xCC, CHR 0xCD, CHR 0xCE, CHR 0xCF,
      CHR 0xD0, CHR 0xD1, CHR 0xD2, CHR 0xD3, CHR 0xD4, CHR 0xD5, CHR 0xD6, CHR 0xD8,
      CHR 0xD9, CHR 0xDA, CHR 0xDB, CHR 0xDC, CHR 0xDD, CHR 0xDE]"

text \<open>
  Case folding of one code unit under the \<^verbatim>\<open>i\<close> flag: the upper-case form, when that is
  again a single code unit of the range.
\<close>

definition canonicalize :: "char \<Rightarrow> char" where
  "canonicalize c =
     (case map_of (zip lower_case_letters upper_case_letters) c of
        Some upper \<Rightarrow> upper
      | None \<Rightarrow> c)"

text \<open>\<^verbatim>\<open>String.prototype.toLowerCase\<close>, one code unit at a time.\<close>

definition lower_char :: "char \<Rightarrow> char" where
  "lower_char c =
     (case map_of (zip upper_case_letters lower_case_letters) c of
        Some lower \<Rightarrow> lower
      | None \<Rightarrow> c)"

definition toLowerCase :: "string \<Rightarrow> string" where
  "toLowerCase s = map lower_char s"

definition trim :: "string \<Rightarrow> string" where
  "trim s = rev (dropWhile is_white_space (rev (dropWhile is_white_space s)))"

definition startsWith :: "string \<Rightarrow> string \<Rightarrow> bool" where
  "startsWith s p = (take (length p) s = p)"

text \<open>\<^verbatim>\<open>s.indexOf(p)\<close>, with \<open>None\<close> for \<^verbatim>\<open>-1\<close>.\<close>

fun indexOf :: "string \<Rightarrow> string \<Rightarrow> nat option" where
  "indexOf [] p = (if p = [] then Some 0 else None)"
| "indexOf (c # cs) p =
     (if startsWith (c # cs) p then Some 0 else map_option Suc (indexOf cs p))"

text \<open>\<^verbatim>\<open>s.includes(p)\<close>.\<close>

definition includes_str :: "string \<Rightarrow> string \<Rightarrow> bool" where
  "includes_str s p = (indexOf s p \<noteq> None)"

text \<open>\<^verbatim>\<open>xs.join(sep)\<close> on an array of strings.\<close>

fun join :: "string \<Rightarrow> string list \<Rightarrow> string" where
  "join sep [] = []"
| "join sep [x] = x"
| "join sep (x # y # ys) = x @ sep @ join sep (y # ys)"

section \<open>JavaScript values\<close>

text \<open>
  The values that \<^verbatim>\<open>JSON.parse\<close> produces and \<^verbatim>\<open>JSON.stringify\<close> consumes, together
  with \<^verbatim>\<open>undefined\<close>. An object is the list of its own properties in insertion order.
  A number is either a safe integer, one of magnitude up to \<open>2^53 - 1\<close>, which string
  conversion and \<^verbatim>\<open>JSON.stringify\<close> print as its decimal digits (\<open>JNum\<close>); or any other
  number, a fraction, a larger number, \<^verbatim>\<open>NaN\<close> or an infinity, which is given by the text
  that the platform's conversion of numbers to strings prints for it (\<open>JOtherNum\<close>).
\<close>

typedef safe_integer = "{n :: int. - 9007199254740991 \<le> n \<and> n \<le> 9007199254740991}"
  by (rule exI [where x = 0]) simp

setup_lifting type_definition_safe_integer

text \<open>The safe integer of a numeral in the range (and zero outside of it).\<close>

lift_definition safe_integer_of :: "int \<Rightarrow> safe_integer" is
  "\<lambda>n. if - 9007199254740991 \<le> n \<and> n \<le> 9007199254740991 then n else 0"
  by simp

datatype json =
    JUndefined
  | JNull
  | JBool bool
  | JNum safe_integer
  | JOtherNum string
  | JStr string
  | JArr "json list"
  | JObj "(string \<times> json) list"

text \<open>Truthiness, as the operands of \<^verbatim>\<open>&&\<close> and \<^verbatim>\<open>if\<close> are read.\<close>

fun truthy :: "json \<Rightarrow> bool" where
  "truthy JUndefined = False"
| "truthy JNull = False"
| "truthy (JBool b) = b"
| "truthy (JNum n) = (Rep_safe_integer n \<noteq> 0)"
| "truthy (JOtherNum printed) = (printed \<noteq> ''NaN'')"
| "truthy (JStr s) = (s \<noteq> [])"
| "truthy (JArr xs) = True"
| "truthy (JObj kvs) = True"

text \<open>
  Property access \<^verbatim>\<open>v.k\<close> for the keys \<^verbatim>\<open>name\<close> and \<^verbatim>\<open>parameters\<close>: an own property
  of an object, \<^verbatim>\<open>undefined\<close> otherwise.
\<close>

fun getProp :: "json \<Rightarrow> string \<Rightarrow> json" where
  "getProp (JObj kvs) k = (case map_of kvs k of Some v \<Rightarrow> v | None \<Rightarrow> JUndefined)"
| "getProp v k = JUndefined"

text \<open>Decimal digits of a number, as string conversion and \<^verbatim>\<open>JSON.stringify\<close> print it.\<close>

fun show_nat :: "nat \<Rightarrow> string" where
  "show_nat n =
     (if n < 10 then [''0123456789'' ! n]
      else show_nat (n div 10) @ [''0123456789'' ! (n mod 10)])"

definition show_int :: "int \<Rightarrow> string" where
  "show_int i = (if i < 0 then ''-'' @ show_nat (nat (- i)) else show_nat (nat i))"

text \<open>What the functions of \<^verbatim>\<open>src/api/lmStudioApi.ts\<close> can throw.\<close>

datatype error = TypeError | SyntaxError | BackendError

text \<open>
  String conversion, as a template literal applies it to an interpolated value. An object
  is converted by its \<^verbatim>\<open>toString\<close> method: the inherited one gives \<^verbatim>\<open>[object Object]\<close>, but
  an own property of that name hides it, and as no value here is a function the
  conversion then throws a \<^verbatim>\<open>TypeError\<close>. An array joins the conversions of its elements
  (nothing for \<^verbatim>\<open>null\<close> and \<^verbatim>\<open>undefined\<close>) and throws where one of them does.
\<close>

fun ToString :: "json \<Rightarrow> error + string" where
  "ToString JUndefined = Inr ''undefined''"
| "ToString JNull = Inr ''null''"
| "ToString (JBool b) = Inr (if b then ''true'' else ''false'')"
| "ToString (JNum n) = Inr (show_int (Rep_safe_integer n))"
| "ToString (JOtherNum printed) = Inr printed"
| "ToString (JStr s) = Inr s"
| "ToString (JArr xs) =
     (let parts = map (\<lambda>x. case x of JUndefined \<Rightarrow> Inr [] | JNull \<Rightarrow> Inr [] | _ \<Rightarrow> ToString x) xs
      in if list_ex isl parts then Inl TypeError else Inr (join '','' (map projr parts)))"
| "ToString (JObj kvs) =
     (if map_of kvs ''toString'' \<noteq> None then Inl TypeError else Inr ''[object Object]'')"

text \<open>\<^verbatim>\<open>JSON.stringify\<close>: the quoting of a string, then the value. \<open>None\<close> is \<^verbatim>\<open>undefined\<close>.\<close>

definition hex_digit :: "nat \<Rightarrow> char" where
  "hex_digit d = ''0123456789abcdef'' ! d"

definition quote_char :: "char \<Rightarrow> string" where
  "quote_char c =
     (if c = CHR 0x22 then [CHR 0x5C, CHR 0x22]
      else if c = CHR 0x5C then [CHR 0x5C, CHR 0x5C]
      else if c = CHR 0x08 then [CHR 0x5C, CHR ''b'']
      else if c = CHR 0x09 then [CHR 0x5C, CHR ''t'']
      else if c = CHR 0x0A then [CHR 0x5C, CHR ''n'']
      else if c = CHR 0x0C then [CHR 0x5C, CHR ''f'']
      else if c = CHR 0x0D then [CHR 0x5C, CHR ''r'']
      else if (of_char c :: nat) < 32
        then [CHR 0x5C, CHR ''u'', CHR ''0'', CHR ''0'',
              hex_digit ((of_char c :: nat) div 16), hex_digit ((of_char c :: nat) mod 16)]
      else [c])"

definition quote :: "string \<Rightarrow> string" where
  "quote s = DQ @ concat (map quote_char s) @ DQ"

fun JSON_stringify :: "json \<Rightarrow> string option" where
  "JSON_stringify JUndefined = None"
| "JSON_stringify JNull = Some ''null''"
| "JSON_stringify (JBool b) = Some (if b then ''true'' else ''false'')"
| "JSON_stringify (JNum n) = Some (show_int (Rep_safe_integer n))"
| "JSON_stringify (JOtherNum printed) =
     Some (if printed \<in> set [''NaN'', ''Infinity'', ''-Infinity''] then ''null'' else printed)"
| "JSON_stringify (JStr s) = Some (quote s)"
| "JSON_stringify (JArr xs) =
     Some (''['' @ join '',''
             (map (\<lambda>x. case JSON_stringify x of None \<Rightarrow> ''null'' | Some t \<Rightarrow> t) xs) @ '']'')"
| "JSON_stringify (JObj kvs) =
     Some (''{'' @ join '',''
             (concat (map (\<lambda>kv. case JSON_stringify (snd kv) of
                                    None \<Rightarrow> []
                                  | Some t \<Rightarrow> [quote (fst kv) @ '':'' @ t]) kvs)) @ ''}'')"

text \<open>A value interpolated into a template literal after \<^verbatim>\<open>JSON.stringify\<close>.\<close>

definition stringified :: "json \<Rightarrow> string" where
  "stringified v = (case JSON_stringify v of None \<Rightarrow> ''undefined'' | Some t \<Rightarrow> t)"

section \<open>The regular expressions of the request detector\<close>

text \<open>
  The expression \<^verbatim>\<open>toolRegex\<close> of \<^verbatim>\<open>detectToolRequests\<close> (flags \<^verbatim>\<open>gs\<close>: an opening
  \<^verbatim>\<open>[TOOL]\<close>, a group holding a brace, a lazy run of any characters and a brace, and a
  closing \<^verbatim>\<open>[/TOOL]\<close>), one call of \<^verbatim>\<open>exec\<close> with the search starting at
  \<open>lastIndex\<close>: the leftmost \<^verbatim>\<open>[TOOL]{\<close> from there, then the nearest \<^verbatim>\<open>}[/TOOL]\<close>
  after it (the quantifier is lazy and \<^verbatim>\<open>.\<close> matches every character under the \<^verbatim>\<open>s\<close>
  flag). The result is the first group and the new \<open>lastIndex\<close>; \<open>None\<close> is \<^verbatim>\<open>null\<close>.
\<close>

definition toolRegex_exec :: "string \<Rightarrow> nat \<Rightarrow> (string \<times> nat) option" where
  "toolRegex_exec content lastIndex =
     (case indexOf (drop lastIndex content) ''[TOOL]{'' of
        None \<Rightarrow> None
      | Some p \<Rightarrow>
          (let inner = drop (lastIndex + p + 7) content
           in case indexOf inner ''}[/TOOL]'' of
                None \<Rightarrow> None
              | Some q \<Rightarrow> Some (''{'' @ take q inner @ ''}'', lastIndex + p + 7 + q + 8)))"

text \<open>
  The tail shared by the two per-tool expressions (white space, once or more and greedy;
  a group of one or more characters, lazy; a lookahead for a full stop or the end),
  matched against the text that follows the literal part. \<open>lazy_scan\<close> extends the lazy
  group one character at a time until the lookahead holds (a full stop, or the end of the
  text: there is no \<^verbatim>\<open>m\<close> flag), and fails at a line terminator, which the group
  cannot take; \<open>lazy_dot\<close> is the group, which takes one character at least;
  \<open>backtrack_space\<close> gives back the white space that was taken greedily, one character
  at a time, while the group fails.
\<close>

fun lazy_scan :: "string \<Rightarrow> string \<Rightarrow> string option" where
  "lazy_scan acc [] = Some acc"
| "lazy_scan acc (c # cs) =
     (if c = CHR ''.'' then Some acc
      else if is_line_terminator c then None
      else lazy_scan (acc @ [c]) cs)"

definition lazy_dot :: "string \<Rightarrow> string option" where
  "lazy_dot s =
     (case s of
        [] \<Rightarrow> None
      | c # cs \<Rightarrow> if is_line_terminator c then None else lazy_scan [c] cs)"

fun backtrack_space :: "nat \<Rightarrow> string \<Rightarrow> string option" where
  "backtrack_space 0 rest = None"
| "backtrack_space (Suc k) rest =
     (case lazy_dot (drop (Suc k) rest) of
        Some g \<Rightarrow> Some g
      | None \<Rightarrow> backtrack_space k rest)"

definition query_tail :: "string \<Rightarrow> string option" where
  "query_tail rest = backtrack_space (length (takeWhile is_white_space rest)) rest"

text \<open>The literal part of an expression under the \<^verbatim>\<open>i\<close> flag, at the start of \<open>s\<close>.\<close>

fun literal_at :: "string \<Rightarrow> string \<Rightarrow> bool" where
  "literal_at [] s = True"
| "literal_at (p # ps) [] = False"
| "literal_at (p # ps) (c # cs) =
     (if canonicalize p = canonicalize c then literal_at ps cs else False)"

definition match_here :: "string \<Rightarrow> string \<Rightarrow> string option" where
  "match_here lit s = (if literal_at lit s then query_tail (drop (length lit) s) else None)"

text \<open>
  \<^verbatim>\<open>exec\<close> on a freshly built expression (\<open>lastIndex = 0\<close>): the match at the leftmost
  position that has one. The result is the first group.
\<close>

fun regex_exec :: "string \<Rightarrow> string \<Rightarrow> string option" where
  "regex_exec lit [] = match_here lit []"
| "regex_exec lit (c # cs) =
     (case match_here lit (c # cs) of
        Some g \<Rightarrow> Some g
      | None \<Rightarrow> regex_exec lit cs)"

text \<open>
  The tool name is spliced into the source of the expression unescaped. It is literal
  text there when it has none of the characters that are syntax in an expression;
  \<open>literal_name\<close> says so of a name, and \<open>usePattern_exec\<close> and \<open>slashPattern_exec\<close> are
  the two expressions for such a name.
\<close>

definition regex_syntax_chars :: "char list" where
  "regex_syntax_chars =
     [CHR 0x5C, CHR ''^'', CHR ''$'', CHR ''.'', CHR ''|'', CHR ''?'', CHR ''*'', CHR ''+'',
      CHR ''('', CHR '')'', CHR ''['', CHR '']'', CHR ''{'', CHR ''}'']"

definition literal_name :: "string \<Rightarrow> bool" where
  "literal_name n = (\<forall>c \<in> set n. c \<notin> set regex_syntax_chars)"

text \<open>\<^verbatim>\<open>usePattern.exec(content)\<close>: the literal part is \<^verbatim>\<open>use ${toolName} tool with\<close>.\<close>

definition usePattern_exec :: "string \<Rightarrow> string \<Rightarrow> string option" where
  "usePattern_exec toolName content = regex_exec (''use '' @ toolName @ '' tool with'') content"

text \<open>\<^verbatim>\<open>slashPattern.exec(content)\<close>: the literal part is \<^verbatim>\<open>/${toolName}\<close>.\<close>

definition slashPattern_exec :: "string \<Rightarrow> string \<Rightarrow> string option" where
  "slashPattern_exec toolName content = regex_exec (''/'' @ toolName) content"

text \<open>
  The result of \<^verbatim>\<open>exec\<close>: \<^verbatim>\<open>null\<close>, or a match with its first group, which is
  \<^verbatim>\<open>undefined\<close> (\<open>None\<close>) when the group took no part in the match.
\<close>

datatype exec_result = Null | Match "string option"

text \<open>The tail of the two sources, as the template literals write it.\<close>

definition tail_source :: string where
  "tail_source = [CHR 0x5C] @ ''s+(.+?)(?='' @ [CHR 0x5C] @ ''.|$)''"

text \<open>
  \<^verbatim>\<open>new RegExp(source, 'gi')\<close> followed by one \<^verbatim>\<open>exec(content)\<close>, for every name. A name
  with syntax characters makes a source that the platform may refuse (the constructor
  throws a \<^verbatim>\<open>SyntaxError\<close>) or read as another expression; what it does then is the
  parameter \<open>RegExp_exec\<close>, a function of the source and the text.
\<close>

definition usePattern ::
  "(string \<Rightarrow> string \<Rightarrow> error + exec_result) \<Rightarrow> string \<Rightarrow> string \<Rightarrow> error + exec_result" where
  "usePattern RegExp_exec toolName content =
     (if literal_name toolName
      then Inr (case usePattern_exec toolName content of
                  None \<Rightarrow> Null
                | Some g \<Rightarrow> Match (Some g))
      else RegExp_exec (''use '' @ toolName @ '' tool with'' @ tail_source) content)"

definition slashPattern ::
  "(string \<Rightarrow> string \<Rightarrow> error + exec_result) \<Rightarrow> string \<Rightarrow> string \<Rightarrow> error + exec_result" where
  "slashPattern RegExp_exec toolName content =
     (if literal_name toolName
      then Inr (case slashPattern_exec toolName content of
                  None \<Rightarrow> Null
                | Some g \<Rightarrow> Match (Some g))
      else RegExp_exec ([CHR 0x5C] @ ''/'' @ toolName @ tail_source) content)"

section \<open>The tool registry\<close>

record ToolParameter =
  param_name :: string
  param_type :: string
  param_description :: string
  required :: bool

text \<open>
  What a handler does with the parameters it is given, as the \<^verbatim>\<open>try\<close> block of
  \<^verbatim>\<open>processToolCall\<close> sees it: it returns a value that \<^verbatim>\<open>JSON.stringify\<close> accepts; or it
  returns one that \<^verbatim>\<open>JSON.stringify\<close> throws on (\<open>ReturnedUnserialisable\<close>); or it throws
  (\<open>Threw\<close>). The last two carry what the conversion of the thrown value to a string
  gives in the \<^verbatim>\<open>catch\<close> block: the text, or the exception that this conversion throws in
  its turn. A handler is read as a function of its parameters, and as one whose promise
  settles.
\<close>

datatype outcome =
  Returned json | ReturnedUnserialisable "error + string" | Threw "error + string"

record Tool =
  name :: string
  description :: string
  parameters :: "ToolParameter list"
  handler :: "json \<Rightarrow> outcome"
  category :: "string option"

text \<open>
  The field \<^verbatim>\<open>tools: Map<string, Tool>\<close>: the entries in insertion order. Setting a key
  that exists replaces the value where it stands; a new key goes to the end.
\<close>

type_synonym registry = "(string \<times> Tool) list"

definition registerTool :: "Tool \<Rightarrow> registry \<Rightarrow> registry" where
  "registerTool tool tools = AList.update (name tool) tool tools"

definition unregisterTool :: "string \<Rightarrow> registry \<Rightarrow> bool \<times> registry" where
  "unregisterTool n tools = (map_of tools n \<noteq> None, AList.delete n tools)"

definition tool_keys :: "registry \<Rightarrow> string list" where
  "tool_keys tools = map fst tools"

definition tool_values :: "registry \<Rightarrow> Tool list" where
  "tool_values tools = map snd tools"

text \<open>\<^verbatim>\<open>this.tools.get(key)\<close>: only a string is equal to a key of the map.\<close>

fun tools_get :: "registry \<Rightarrow> json \<Rightarrow> Tool option" where
  "tools_get tools (JStr k) = map_of tools k"
| "tools_get tools v = None"

text \<open>An absent or empty \<open>category\<close> argument selects every tool.\<close>

definition getAvailableTools :: "registry \<Rightarrow> string option \<Rightarrow> Tool list" where
  "getAvailableTools tools cat =
     (if cat \<noteq> None \<and> cat \<noteq> Some []
      then filter (\<lambda>tool. category tool = cat) (tool_values tools)
      else tool_values tools)"

section \<open>Detecting tool requests\<close>

text \<open>
  A \<^verbatim>\<open>ToolCall\<close> object: the two properties that are read from it. For a call taken
  from a structured tag they hold whatever the parsed object has there.
\<close>

record ToolCall =
  call_name :: json
  call_parameters :: json

definition query_call :: "string \<Rightarrow> string \<Rightarrow> ToolCall" where
  "query_call toolName q =
     \<lparr>call_name = JStr toolName, call_parameters = JObj [(''query'', JStr q)]\<rparr>"

text \<open>
  The \<^verbatim>\<open>try\<close> block of the first loop: the object is kept when it parses and both
  \<^verbatim>\<open>name\<close> and \<^verbatim>\<open>parameters\<close> are truthy; a parse error is caught and the span dropped.
  \<open>JSON_parse\<close> is the platform's parser, \<open>None\<close> where it throws.
\<close>

definition push_parsed :: "(string \<Rightarrow> json option) \<Rightarrow> string \<Rightarrow> ToolCall list \<Rightarrow> ToolCall list" where
  "push_parsed JSON_parse body toolCalls =
     (case JSON_parse body of
        None \<Rightarrow> toolCalls
      | Some toolCall \<Rightarrow>
          if truthy (getProp toolCall ''name'') \<and> truthy (getProp toolCall ''parameters'')
          then toolCalls @ [\<lparr>call_name = getProp toolCall ''name'',
                             call_parameters = getProp toolCall ''parameters''\<rparr>]
          else toolCalls)"

lemma indexOf_bound: "indexOf s p = Some k \<Longrightarrow> k + length p \<le> length s"
proof (induction s arbitrary: k)
  case Nil
  then show ?case by (simp split: if_splits)
next
  case (Cons c cs)
  show ?case
  proof (cases "startsWith (c # cs) p")
    case True
    with Cons.prems have "k = 0" by simp
    moreover have "length p \<le> length (c # cs)"
    proof -
      from True have "length (take (length p) (c # cs)) = length p"
        by (simp only: startsWith_def)
      then have "min (length (c # cs)) (length p) = length p"
        by (simp only: length_take)
      then show ?thesis by linarith
    qed
    ultimately show ?thesis by simp
  next
    case False
    with Cons.prems obtain k' where "indexOf cs p = Some k'" "k = Suc k'" by auto
    with Cons.IH show ?thesis by fastforce
  qed
qed

lemma toolRegex_exec_advances:
  assumes "toolRegex_exec content lastIndex = Some (g, li)"
  shows "lastIndex < li \<and> li \<le> length content"
proof -
  from assms obtain p q where
    p: "indexOf (drop lastIndex content) ''[TOOL]{'' = Some p" and
    q: "indexOf (drop (lastIndex + p + 7) content) ''}[/TOOL]'' = Some q" and
    li: "li = lastIndex + p + 7 + q + 8"
    unfolding toolRegex_exec_def by (auto simp: Let_def split: option.splits)
  from indexOf_bound [OF q] have "q + 8 \<le> length content - (lastIndex + p + 7)" by simp
  with li show ?thesis by simp
qed

text \<open>The \<^verbatim>\<open>while\<close> loop over the structured tags.\<close>

function tool_tag_loop ::
  "(string \<Rightarrow> json option) \<Rightarrow> string \<Rightarrow> nat \<Rightarrow> ToolCall list \<Rightarrow> ToolCall list" where
  "tool_tag_loop JSON_parse content lastIndex toolCalls =
     (case toolRegex_exec content lastIndex of
        None \<Rightarrow> toolCalls
      | Some (body, li) \<Rightarrow>
          tool_tag_loop JSON_parse content li (push_parsed JSON_parse body toolCalls))"
  by pat_completeness auto
termination
proof (relation "measure (\<lambda>(JSON_parse, content, lastIndex, toolCalls). length content - lastIndex)")
  show "wf (measure (\<lambda>(JSON_parse :: string \<Rightarrow> json option, content :: string, lastIndex :: nat,
                         toolCalls :: ToolCall list). length content - lastIndex))"
    by simp
next
  fix JSON_parse :: "string \<Rightarrow> json option" and content :: string and lastIndex :: nat
    and toolCalls :: "ToolCall list" and x2 body li
  assume "toolRegex_exec content lastIndex = Some x2" "(body, li) = x2"
  then have "toolRegex_exec content lastIndex = Some (body, li)" by simp
  from toolRegex_exec_advances [OF this]
  show "((JSON_parse, content, li, push_parsed JSON_parse body toolCalls),
         (JSON_parse, content, lastIndex, toolCalls))
        \<in> measure (\<lambda>(JSON_parse, content, lastIndex, toolCalls). length content - lastIndex)"
    by auto
qed

declare tool_tag_loop.simps [simp del]

text \<open>
  One step of the loop over the registered names: a match adds a call whose query is the
  trimmed first group; \<^verbatim>\<open>trim\<close> on a group that is \<^verbatim>\<open>undefined\<close> throws.
\<close>

fun push_match :: "string \<Rightarrow> exec_result \<Rightarrow> ToolCall list \<Rightarrow> error + ToolCall list" where
  "push_match toolName Null toolCalls = Inr toolCalls"
| "push_match toolName (Match None) toolCalls = Inl TypeError"
| "push_match toolName (Match (Some g)) toolCalls =
     Inr (toolCalls @ [query_call toolName (trim g)])"

text \<open>
  The \<^verbatim>\<open>for\<close> loop over the registered names: for each name, the natural-language
  expression is built and run once, then the slash expression. Nothing catches what they
  throw, so the first exception ends the detection.
\<close>

fun tool_name_loop ::
  "(string \<Rightarrow> string \<Rightarrow> error + exec_result) \<Rightarrow> string list \<Rightarrow> string \<Rightarrow> ToolCall list
     \<Rightarrow> error + ToolCall list" where
  "tool_name_loop RegExp_exec [] content toolCalls = Inr toolCalls"
| "tool_name_loop RegExp_exec (toolName # availableTools) content toolCalls =
     (case usePattern RegExp_exec toolName content of
        Inl e \<Rightarrow> Inl e
      | Inr useMatch \<Rightarrow>
          (case push_match toolName useMatch toolCalls of
             Inl e \<Rightarrow> Inl e
           | Inr toolCalls1 \<Rightarrow>
               (case slashPattern RegExp_exec toolName content of
                  Inl e \<Rightarrow> Inl e
                | Inr slashMatch \<Rightarrow>
                    (case push_match toolName slashMatch toolCalls1 of
                       Inl e \<Rightarrow> Inl e
                     | Inr toolCalls2 \<Rightarrow>
                         tool_name_loop RegExp_exec availableTools content toolCalls2))))"

definition detectToolRequests ::
  "(string \<Rightarrow> json option) \<Rightarrow> (string \<Rightarrow> string \<Rightarrow> error + exec_result) \<Rightarrow> registry \<Rightarrow> string
     \<Rightarrow> error + ToolCall list" where
  "detectToolRequests JSON_parse RegExp_exec tools content =
     tool_name_loop RegExp_exec (tool_keys tools) content (tool_tag_loop JSON_parse content 0 [])"

section \<open>Invoking tools\<close>

text \<open>
  \<^verbatim>\<open>processToolCall\<close>. The branch for an unknown tool stands before the \<^verbatim>\<open>try\<close>: when
  the conversion of the name throws there, the function throws. A tool that is found was
  found under a string, which converts to itself. In the \<^verbatim>\<open>catch\<close> block the thrown
  value is converted, and an exception of that conversion leaves the function too.
\<close>

definition processToolCall :: "registry \<Rightarrow> ToolCall \<Rightarrow> error + string" where
  "processToolCall tools toolCall =
     (case tools_get tools (call_name toolCall) of
        None \<Rightarrow>
          (case ToString (call_name toolCall) of
             Inl e \<Rightarrow> Inl e
           | Inr shown \<Rightarrow>
               Inr (''[TOOL_ERROR]Unknown tool: '' @ shown
                    @ ''. Available tools: '' @ join '', '' (tool_keys tools) @ ''[/TOOL_ERROR]''))
      | Some tool \<Rightarrow>
          (case ToString (call_name toolCall) of
             Inl e \<Rightarrow> Inl e
           | Inr shown \<Rightarrow>
               (case handler tool (call_parameters toolCall) of
                  Returned result \<Rightarrow>
                    Inr (''[TOOL_RESULT:'' @ shown @ '']'' @ stringified result
                         @ ''[/TOOL_RESULT]'')
                | ReturnedUnserialisable (Inr thrown) \<Rightarrow>
                    Inr (''[TOOL_ERROR:'' @ shown @ '']'' @ thrown @ ''[/TOOL_ERROR]'')
                | ReturnedUnserialisable (Inl e) \<Rightarrow> Inl e
                | Threw (Inr thrown) \<Rightarrow>
                    Inr (''[TOOL_ERROR:'' @ shown @ '']'' @ thrown @ ''[/TOOL_ERROR]'')
                | Threw (Inl e) \<Rightarrow> Inl e)))"

text \<open>
  The \<^verbatim>\<open>for\<close> loop of \<^verbatim>\<open>processToolChain\<close>, pushing one result per call. It has no
  \<^verbatim>\<open>try\<close>: a call that throws ends the chain, and the results so far are lost.
\<close>

fun tool_chain_loop :: "registry \<Rightarrow> ToolCall list \<Rightarrow> string list \<Rightarrow> error + string list" where
  "tool_chain_loop tools [] results = Inr results"
| "tool_chain_loop tools (toolCall # toolCalls) results =
     (case processToolCall tools toolCall of
        Inl e \<Rightarrow> Inl e
      | Inr result \<Rightarrow> tool_chain_loop tools toolCalls (results @ [result]))"

definition processToolChain :: "registry \<Rightarrow> ToolCall list \<Rightarrow> error + string list" where
  "processToolChain tools toolCalls = tool_chain_loop tools toolCalls []"

section \<open>The conversation driver\<close>

datatype Role = System | User | Assistant

record ChatMessage =
  role :: Role
  content :: string

text \<open>
  The part of the world that \<^verbatim>\<open>chatCompletion\<close> touches. \<open>arrays\<close> is the store of message
  arrays: a reference to an array is its index there, and an array literal or a spread
  allocates a new index. \<open>requests\<close> lists the \<^verbatim>\<open>messages\<close> bodies posted to the backend
  so far, oldest first.
\<close>

record world =
  arrays :: "ChatMessage list list"
  requests :: "ChatMessage list list"

definition alloc :: "ChatMessage list \<Rightarrow> world \<Rightarrow> nat \<times> world" where
  "alloc xs w = (length (arrays w), w\<lparr>arrays := arrays w @ [xs]\<rparr>)"

text \<open>
  The clean-up of the response: the first \<^verbatim>\<open>replace\<close> removes every span from a
  \<^verbatim>\<open><think>\<close> to the nearest \<^verbatim>\<open></think>\<close> after it, the second every marker that is
  left, and \<^verbatim>\<open>trim\<close> the white space at both ends.
\<close>

function strip_think_spans :: "string \<Rightarrow> string" where
  "strip_think_spans [] = []"
| "strip_think_spans (c # cs) =
     (if startsWith (c # cs) ''<think>''
      then (case indexOf (drop 7 (c # cs)) ''</think>'' of
              Some q \<Rightarrow> strip_think_spans (drop (7 + q + 8) (c # cs))
            | None \<Rightarrow> c # strip_think_spans cs)
      else c # strip_think_spans cs)"
  by pat_completeness auto
termination
  by (relation "measure length") auto

function strip_think_markers :: "string \<Rightarrow> string" where
  "strip_think_markers [] = []"
| "strip_think_markers (c # cs) =
     (if startsWith (c # cs) ''<think>'' then strip_think_markers (drop 7 (c # cs))
      else if startsWith (c # cs) ''</think>'' then strip_think_markers (drop 8 (c # cs))
      else c # strip_think_markers cs)"
  by pat_completeness auto
termination
  by (relation "measure length") auto

definition clean_response :: "string \<Rightarrow> string" where
  "clean_response raw = trim (strip_think_markers (strip_think_spans raw))"

text \<open>
  \<^verbatim>\<open>chatCompletion(messages)\<close>, with the default model and sampling parameters.
  \<open>messages\<close> is the caller's reference. \<open>backend k\<close> is the content of the first choice
  in the answer to the \<open>k\<close>-th post (counting from 0), \<open>None\<close> when the post fails or
  the answer has no such content; a statement for every \<open>backend\<close> covers every server,
  whatever its answers depend on. The \<^verbatim>\<open>catch\<close> block rethrows whatever the \<^verbatim>\<open>try\<close>
  block throws: reading the last message of an empty array, the detection, the tool
  chain and the post. Nothing is posted when one of the first three throws.
\<close>

definition chatCompletion ::
  "(string \<Rightarrow> json option) \<Rightarrow> (string \<Rightarrow> string \<Rightarrow> error + exec_result)
     \<Rightarrow> (nat \<Rightarrow> string option) \<Rightarrow> registry \<Rightarrow> nat \<Rightarrow> world \<Rightarrow> (error + string) \<times> world" where
  "chatCompletion JSON_parse RegExp_exec backend tools messages w =
     (if arrays w ! messages = [] then (Inl TypeError, w)
      else
        let lastMessage = last (arrays w ! messages)
        in case detectToolRequests JSON_parse RegExp_exec tools (content lastMessage) of
             Inl e \<Rightarrow> (Inl e, w)
           | Inr toolCalls \<Rightarrow>
               (case (if length toolCalls > 0
                      then (case processToolChain tools toolCalls of
                              Inl e \<Rightarrow> Inl e
                            | Inr results \<Rightarrow>
                                Inr (alloc (arrays w ! messages
                                            @ [\<lparr>role = System,
                                                content = ''Tool results: ''
                                                          @ join LF results\<rparr>]) w))
                      else Inr (messages, w)) of
                  Inl e \<Rightarrow> (Inl e, w)
                | Inr (messages1, w1) \<Rightarrow>
                    (let w2 = w1\<lparr>requests := requests w1 @ [arrays w1 ! messages1]\<rparr>
                     in case backend (length (requests w1)) of
                          None \<Rightarrow> (Inl BackendError, w2)
                        | Some raw \<Rightarrow> (Inr (clean_response raw), w2))))"

section \<open>Prompts\<close>

definition parameter_signature :: "ToolParameter \<Rightarrow> string" where
  "parameter_signature p =
     param_name p @ '' ('' @ param_type p @ (if required p then '', required'' else []) @ '')''"

text \<open>The block of one tool in the agentic system prompt.\<close>

definition agentic_tool_block :: "Tool \<Rightarrow> string" where
  "agentic_tool_block tool =
     LF @ ''- '' @ name tool @ '': '' @ description tool @ LF
     @ ''  Parameters: '' @ join '', '' (map parameter_signature (parameters tool)) @ LF
     @ ''  Usage formats:'' @ LF
     @ ''    * [TOOL]{'' @ DQ @ ''name'' @ DQ @ '': '' @ DQ @ name tool @ DQ @ '', '' @ DQ
     @ ''parameters'' @ DQ @ '': {...}}[/TOOL]'' @ LF
     @ ''    * Use '' @ name tool @ '' tool with [query/parameters]'' @ LF
     @ ''    * /'' @ name tool @ '' [query]'' @ LF"

definition getAgenticSystemPrompt :: "registry \<Rightarrow> string" where
  "getAgenticSystemPrompt tools =
     ''You are Claire, an agentic AI assistant. You can break down complex tasks and use available tools to complete them step by step.''
     @ LF @ LF @ ''Available tools:'' @ LF
     @ join LF (map agentic_tool_block (tool_values tools))
     @ LF @ LF @ ''Instructions:'' @ LF
     @ ''1. Analyze the task and break it down if complex'' @ LF
     @ ''2. Use available tools when needed'' @ LF
     @ ''3. Build upon previous results'' @ LF
     @ ''4. When you have completed the task, say '' @ DQ @ ''TASK COMPLETE:'' @ DQ
     @ '' followed by your final answer'' @ LF
     @ ''5. Be proactive - suggest additional tools or information that might be helpful''"

text \<open>The block of one tool in \<^verbatim>\<open>toolInstructions\<close>, and \<^verbatim>\<open>toolInstructions\<close> itself.\<close>

definition tool_block :: "Tool \<Rightarrow> string" where
  "tool_block tool =
     LF @ ''    - '' @ name tool @ '': '' @ description tool @ LF
     @ ''      Parameters: '' @ join '', '' (map parameter_signature (parameters tool)) @ LF
     @ ''      Usage formats:'' @ LF
     @ ''        * [TOOL]{'' @ DQ @ ''name'' @ DQ @ '': '' @ DQ @ name tool @ DQ @ '', '' @ DQ
     @ ''parameters'' @ DQ @ '': {...}}[/TOOL]'' @ LF
     @ ''        * Use '' @ name tool @ '' tool with [query/parameters]'' @ LF
     @ ''        * /'' @ name tool @ '' [query]'' @ LF
     @ ''    ''"

definition toolInstructions :: "registry \<Rightarrow> string" where
  "toolInstructions tools =
     (let availableTools = getAvailableTools tools None
      in if length availableTools > 0
         then LF @ ''    Available tools:'' @ LF
              @ ''    '' @ join LF (map tool_block availableTools) @ LF
              @ ''    '' @ LF
              @ ''    You can use these tools naturally in conversation. Just mention what you want to do and I'' @ [CHR 0x27] @ ''ll use the appropriate tool.'' @ LF
              @ ''    ''
         else [])"

record ToolManifest =
  manifest_name :: string
  manifest_description :: string
  manifest_parameters :: "ToolParameter list"

record Protocols =
  directive :: string
  protocol_context :: string
  rationale :: string
  examples :: "string list"
  constraints :: "string list"
  protocol_tools :: "ToolManifest list option"

definition general_protocol :: Protocols where
  "general_protocol =
     \<lparr>directive = ''You are Claire, an AI assistant that helps with a variety of tasks.'',
      protocol_context =
         ''You are helpful, friendly, witty, and engaging.'',
      rationale = ''Your responses should be short, to the point, and concise.'',
      examples =
        [''What is the weather like today?'',
         ''Can you help me with my homework?'',
         ''Tell me a joke.''],
      constraints =
        [''Be polite and respectful.'',
         ''Avoid sensitive topics.'',
         ''Do not provide medical or legal advice.''],
      protocol_tools = None\<rparr>"

definition writing_protocol :: Protocols where
  "writing_protocol =
     \<lparr>directive = ''You are Claire, a writing assistant.'',
      protocol_context =
         ''You help users improve their writing by offering suggestions, edits, and feedback.'',
      rationale = ''Focus on clarity, conciseness, and impact.'',
      examples =
        [''Write a short story about a dog named Charlie.'',
         ''Rewrite this paragraph to make it more engaging: '' @ DQ @ ''The quick brown fox jumps over the lazy dog.'' @ DQ,
         ''Rewrite this sentence to make it more engaging: '' @ DQ @ ''The quick brown fox jumps over the lazy dog.'' @ DQ],
      constraints =
        [''Be concise and clear.'',
         ''Avoid jargon and unnecessary language. Complex and creative language is welcome.'',
         ''Focus on the main idea.''],
      protocol_tools = None\<rparr>"

definition research_protocol :: Protocols where
  "research_protocol =
     \<lparr>directive = ''You are Claire, a research assistant.'',
      protocol_context =
         ''You help users analyze information, find connections, and summarize complex topics.'',
      rationale = ''Provide well-structured, factual responses.'',
      examples =
        [''Summarize the main points of this article.'',
         ''What are the key findings of this research paper?'',
         ''Can you help me find sources for my thesis?''],
      constraints =
        [''Be factual and objective.'',
         ''Avoid personal opinions or biases.'',
         ''Cite sources when possible.''],
      protocol_tools = None\<rparr>"

definition coding_protocol :: Protocols where
  "coding_protocol =
     \<lparr>directive = ''You are Claire, a coding assistant.'',
      protocol_context =
         ''You help users write, debug, and understand code.'',
      rationale = ''Provide clear explanations and practical examples.'',
      examples =
        [''Write a Python function to calculate the factorial of a number.'',
         ''Explain how a for loop works in Python.'',
         ''Can you help me debug this code?''],
      constraints =
        [''Be clear and concise.'',
         ''Avoid complex jargon unless necessary.'',
         ''Provide examples when possible.''],
      protocol_tools = None\<rparr>"

definition pdf_protocol :: Protocols where
  "pdf_protocol =
     \<lparr>directive = ''You are Claire, a PDF analysis assistant.'',
      protocol_context =
         ''You help users understand and extract information from PDF documents.'',
      rationale = ''Provide clear summaries and highlight key points.'',
      examples =
        [''Summarize this PDF document.'',
         ''What are the key findings in this research paper?'',
         ''Can you help me extract data from this PDF?''],
      constraints =
        [''Be clear and concise.'',
         ''Avoid complex jargon unless necessary.'',
         ''Provide examples when possible.''],
      protocol_tools = None\<rparr>"

definition web_protocol :: "registry \<Rightarrow> Protocols" where
  "web_protocol tools =
     \<lparr>directive = ''You are Claire, a web page analysis assistant.'',
      protocol_context =
         ''You help users understand and extract information from web pages.'',
      rationale = ''Provide clear summaries and highlight key points.'',
      examples =
        [''Summarize this web page.'',
         ''What are the key findings in this research paper?'',
         ''Can you help me extract data from this web page?''],
      constraints =
        [''Be clear and concise.'',
         ''Avoid complex jargon unless necessary.'',
         ''Provide examples when possible.''],
      protocol_tools =
        Some (map (\<lambda>tool. \<lparr>manifest_name = name tool,
                              manifest_description = description tool,
                              manifest_parameters = parameters tool\<rparr>)
                (getAvailableTools tools None))\<rparr>"

text \<open>
  Reading a property of an object literal by a computed key, as \<^verbatim>\<open>protocols[mode]\<close> and
  \<^verbatim>\<open>systemPrompts[mode]\<close> do: an own property, else a member inherited from
  \<^verbatim>\<open>Object.prototype\<close>, else \<^verbatim>\<open>undefined\<close>.
\<close>

datatype 'a property = Own 'a | Inherited string | Undefined

definition object_prototype_keys :: "string list" where
  "object_prototype_keys =
     [''constructor'', ''__defineGetter__'', ''__defineSetter__'', ''hasOwnProperty'',
      ''__lookupGetter__'', ''__lookupSetter__'', ''isPrototypeOf'', ''propertyIsEnumerable'',
      ''toString'', ''valueOf'', ''__proto__'', ''toLocaleString'']"

definition get_property :: "(string \<times> 'a) list \<Rightarrow> string \<Rightarrow> 'a property" where
  "get_property obj k =
     (case map_of obj k of
        Some v \<Rightarrow> Own v
      | None \<Rightarrow> if k \<in> set object_prototype_keys then Inherited k else Undefined)"

definition getProtocols :: "registry \<Rightarrow> string \<Rightarrow> Protocols property" where
  "getProtocols tools mode =
     get_property
       [(''general'', general_protocol),
        (''writing'', writing_protocol),
        (''research'', research_protocol),
        (''coding'', coding_protocol),
        (''pdf'', pdf_protocol),
        (''web'', web_protocol tools)] mode"

text \<open>
  The protocols as the value that \<^verbatim>\<open>JSON.stringify\<close> walks: the properties in the order
  of the literal, \<^verbatim>\<open>tools\<close> only where the literal has it. A parameter descriptor is
  taken to hold its four properties in the order of the interface.
\<close>

definition parameter_json :: "ToolParameter \<Rightarrow> json" where
  "parameter_json p =
     JObj [(''name'', JStr (param_name p)), (''type'', JStr (param_type p)),
           (''description'', JStr (param_description p)), (''required'', JBool (required p))]"

definition manifest_json :: "ToolManifest \<Rightarrow> json" where
  "manifest_json m =
     JObj [(''name'', JStr (manifest_name m)), (''description'', JStr (manifest_description m)),
           (''parameters'', JArr (map parameter_json (manifest_parameters m)))]"

definition protocols_json :: "Protocols \<Rightarrow> json" where
  "protocols_json p =
     JObj ([(''directive'', JStr (directive p)), (''context'', JStr (protocol_context p)),
            (''rationale'', JStr (rationale p)), (''examples'', JArr (map JStr (examples p))),
            (''constraints'', JArr (map JStr (constraints p)))]
           @ (case protocol_tools p of
                None \<Rightarrow> []
              | Some ms \<Rightarrow> [(''tools'', JArr (map manifest_json ms))]))"

text \<open>
  \<^verbatim>\<open>${JSON.stringify(this.getProtocols(mode))}\<close>: an inherited member is a function, for
  which \<^verbatim>\<open>JSON.stringify\<close> gives \<^verbatim>\<open>undefined\<close>, or the prototype object itself, which has
  no enumerable property.
\<close>

definition protocols_echo :: "registry \<Rightarrow> string \<Rightarrow> string" where
  "protocols_echo tools mode =
     (case getProtocols tools mode of
        Own p \<Rightarrow> stringified (protocols_json p)
      | Inherited k \<Rightarrow> if k = ''__proto__'' then ''{}'' else ''undefined''
      | Undefined \<Rightarrow> ''undefined'')"

definition general_head :: string where
  "general_head =
     ''You are Claire, an AI assistant that helps with a variety of tasks. You are helpful, friendly, witty, and engaging. Your responses should be short, to the point, and concise. ''"

definition writing_head :: string where
  "writing_head =
     ''You are Claire, a writing assistant. You help users improve their writing by offering suggestions, edits, and feedback. Focus on clarity, conciseness, and impact. ''"

definition research_head :: string where
  "research_head =
     ''You are Claire, a research assistant. You help users analyze information, find connections, and summarize complex topics. Provide well-structured, factual responses. ''"

definition coding_head :: string where
  "coding_head =
     ''You are Claire, a coding assistant. You help users write, debug, and understand code. Provide clear explanations and practical examples. ''"

definition pdf_head :: string where
  "pdf_head =
     ''You are Claire, a PDF analysis assistant. You help users understand and extract information from PDF documents. Provide clear summaries and highlight key points. ''"

definition web_head :: string where
  "web_head =
     ''You are Claire, a web page analysis assistant. You help users understand and extract information from web pages. Provide clear summaries and highlight key points. ''"

text \<open>
  The result of \<^verbatim>\<open>getSystemPrompt\<close>: a string, or the member of \<^verbatim>\<open>Object.prototype\<close> that
  the lookup in \<^verbatim>\<open>systemPrompts\<close> found under the mode's name.
\<close>

datatype prompt_result = Prompt string | PrototypeMember string

definition systemPrompts :: "registry \<Rightarrow> string \<Rightarrow> (string \<times> string) list" where
  "systemPrompts tools mode =
     map (\<lambda>(k, head). (k, head @ toolInstructions tools @ '' Here are your protocols: ''
                            @ protocols_echo tools mode))
       [(''general'', general_head), (''writing'', writing_head),
        (''research'', research_head), (''coding'', coding_head),
        (''pdf'', pdf_head), (''web'', web_head)]"

definition getSystemPrompt :: "registry \<Rightarrow> string \<Rightarrow> prompt_result" where
  "getSystemPrompt tools mode =
     (case get_property (systemPrompts tools mode) mode of
        Own prompt \<Rightarrow>
          if prompt \<noteq> [] then Prompt prompt
          else Prompt (general_head @ toolInstructions tools @ '' Here are your protocols: ''
                       @ protocols_echo tools mode)
      | Inherited k \<Rightarrow> PrototypeMember k
      | Undefined \<Rightarrow>
          Prompt (general_head @ toolInstructions tools @ '' Here are your protocols: ''
                  @ protocols_echo tools mode))"

section \<open>The agentic loop\<close>

record AgenticState =
  currentTask :: "string option"
  taskSteps :: "string list"
  completedSteps :: "string list"
  state_context :: "(string \<times> json) list"
  maxTurns :: int
  currentTurn :: int

definition completionIndicators :: "string list" where
  "completionIndicators =
     [''task complete:'', ''analysis complete'', ''here is your final answer'',
      ''task finished'', ''completed successfully'']"

definition isTaskComplete :: "string \<Rightarrow> bool" where
  "isTaskComplete response =
     list_ex (\<lambda>indicator. includes_str (toLowerCase response) indicator) completionIndicators"

text \<open>
  How the \<^verbatim>\<open>while\<close> loop was left: by the \<^verbatim>\<open>break\<close> after a response that signals
  completion, or because its condition \<^verbatim>\<open>currentTurn < maxTurns\<close> did not hold.
\<close>

datatype loop_exit = Completed | BudgetExhausted

text \<open>
  The \<^verbatim>\<open>while\<close> loop of \<^verbatim>\<open>executeAgenticTask\<close>. \<open>st\<close> is \<^verbatim>\<open>this.agenticState\<close>, \<open>ctx\<close> the
  local \<^verbatim>\<open>context\<close>. An exception of \<^verbatim>\<open>chatCompletion\<close> leaves the function at once.
\<close>

function agentic_loop ::
  "(string \<Rightarrow> json option) \<Rightarrow> (string \<Rightarrow> string \<Rightarrow> error + exec_result)
     \<Rightarrow> (nat \<Rightarrow> string option) \<Rightarrow> registry \<Rightarrow> AgenticState \<Rightarrow> string \<Rightarrow> string \<Rightarrow> world
     \<Rightarrow> (error + string \<times> loop_exit) \<times> world" where
  "agentic_loop JSON_parse RegExp_exec backend tools st ctx finalResponse w =
     (if currentTurn st < maxTurns st
      then
        (case alloc [\<lparr>role = System, content = getAgenticSystemPrompt tools\<rparr>,
                     \<lparr>role = User, content = ctx\<rparr>] w of
           (messages, w1) \<Rightarrow>
             (case chatCompletion JSON_parse RegExp_exec backend tools messages w1 of
                (Inl e, w2) \<Rightarrow> (Inl e, w2)
              | (Inr response, w2) \<Rightarrow>
                  if isTaskComplete response then (Inr (response, Completed), w2)
                  else
                    agentic_loop JSON_parse RegExp_exec backend tools
                      (st\<lparr>currentTurn := currentTurn st + 1\<rparr>)
                      (ctx @ LF @ LF @ ''Previous response: '' @ response)
                      (if currentTurn st + 1 \<ge> maxTurns st then response else finalResponse)
                      w2))
      else (Inr (finalResponse, BudgetExhausted), w))"
  by pat_completeness auto
termination
  by (relation "measure (\<lambda>(JSON_parse, RegExp_exec, backend, tools, st, ctx, finalResponse, w).
                           nat (maxTurns st - currentTurn st))") auto

declare agentic_loop.simps [simp del]

definition executeAgenticTask ::
  "(string \<Rightarrow> json option) \<Rightarrow> (string \<Rightarrow> string \<Rightarrow> error + exec_result)
     \<Rightarrow> (nat \<Rightarrow> string option) \<Rightarrow> registry \<Rightarrow> string \<Rightarrow> int \<Rightarrow> world
     \<Rightarrow> (error + string \<times> loop_exit) \<times> world" where
  "executeAgenticTask JSON_parse RegExp_exec backend tools userInput budget w =
     agentic_loop JSON_parse RegExp_exec backend tools
       \<lparr>currentTask = Some userInput, taskSteps = [], completedSteps = [], state_context = [],
        maxTurns = budget, currentTurn = 0\<rparr>
       userInput [] w"

section \<open>Sample values\<close>

text \<open>
  A registry of two tools for the examples below: one whose handler returns the parameters
  it is given, one whose handler throws. \<open>no_json\<close> is a parser that rejects every text,
  which is all that texts without a structured tag ask of it; \<open>sample_parse\<close> accepts one
  body. \<open>refusing_RegExp\<close> refuses every source; it is asked only about names with
  syntax characters, and the examples that reach it use the name \<^verbatim>\<open>c++\<close>, whose sources
  the platform refuses (nothing to repeat).
\<close>

definition query_parameter :: ToolParameter where
  "query_parameter =
     \<lparr>param_name = ''query'', param_type = ''string'',
      param_description = ''The topic to search for'', required = True\<rparr>"

definition echo_tool :: "string \<Rightarrow> Tool" where
  "echo_tool n =
     \<lparr>name = n, description = ''Returns its parameters'', parameters = [query_parameter],
      handler = Returned, category = None\<rparr>"

definition failing_handler :: "json \<Rightarrow> outcome" where
  "failing_handler params = Threw (Inr ''Error: unavailable'')"

definition failing_tool :: "string \<Rightarrow> Tool" where
  "failing_tool n =
     \<lparr>name = n, description = ''Always fails'', parameters = [query_parameter],
      handler = failing_handler, category = None\<rparr>"

definition sample_registry :: registry where
  "sample_registry =
     registerTool (failing_tool ''plan_task'') (registerTool (echo_tool ''search_wikipedia'') [])"

definition no_json :: "string \<Rightarrow> json option" where
  "no_json body = None"

definition refusing_RegExp :: "string \<Rightarrow> string \<Rightarrow> error + exec_result" where
  "refusing_RegExp source input = Inl SyntaxError"




text \<open>
  A structured tag whose name is an object with an own \<^verbatim>\<open>toString\<close> property, the value
  that the platform's parser gives for its body, and a parser that knows this body.
\<close>

definition unprintable_body :: string where
  "unprintable_body =
     ''{'' @ DQ @ ''name'' @ DQ @ '': {'' @ DQ @ ''toString'' @ DQ @ '': 1}, '' @ DQ
     @ ''parameters'' @ DQ @ '': {'' @ DQ @ ''a'' @ DQ @ '': 1}}''"

definition unprintable_name :: json where
  "unprintable_name = JObj [(''toString'', JNum (safe_integer_of 1))]"

definition unprintable_parse :: "string \<Rightarrow> json option" where
  "unprintable_parse body =
     (if body = unprintable_body
      then Some (JObj [(''name'', unprintable_name),
                       (''parameters'', JObj [(''a'', JNum (safe_integer_of 1))])])
      else None)"

definition unprintable_request :: string where
  "unprintable_request = ''[TOOL]'' @ unprintable_body @ ''[/TOOL]''"

definition sample_body :: string where
  "sample_body =
     ''{'' @ DQ @ ''name'' @ DQ @ '': '' @ DQ @ ''analyze_text'' @ DQ @ '', '' @ DQ
     @ ''parameters'' @ DQ @ '': {'' @ DQ @ ''type'' @ DQ @ '': '' @ DQ @ ''keywords'' @ DQ @ ''}}''"

definition sample_parse :: "string \<Rightarrow> json option" where
  "sample_parse body =
     (if body = sample_body
      then Some (JObj [(''name'', JStr ''analyze_text''),
                       (''parameters'', JObj [(''type'', JStr ''keywords'')])])
      else None)"

definition empty_world :: world where
  "empty_world = \<lparr>arrays = [], requests = []\<rparr>"

text \<open>A world holding one history, whose only message asks for a tool.\<close>

definition tool_request_world :: world where
  "tool_request_world =
     \<lparr>arrays = [[\<lparr>role = User, content = ''/search_wikipedia cats''\<rparr>]], requests = []\<rparr>"


text \<open>A backend that answers every post with the same text.\<close>

definition constant_backend :: "string \<Rightarrow> nat \<Rightarrow> string option" where
  "constant_backend answer k = Some answer"

section \<open>The order of the detected calls\<close>

text \<open>
  What one pass of the loop over the registered names adds for one name: the call of the
  natural-language form, and the call of the slash form.
\<close>

definition use_calls :: "string \<Rightarrow> string \<Rightarrow> ToolCall list" where
  "use_calls toolName input =
     (case usePattern_exec toolName input of
        Some useMatch \<Rightarrow> [query_call toolName (trim useMatch)]
      | None \<Rightarrow> [])"

definition slash_calls :: "string \<Rightarrow> string \<Rightarrow> ToolCall list" where
  "slash_calls toolName input =
     (case slashPattern_exec toolName input of
        Some slashMatch \<Rightarrow> [query_call toolName (trim slashMatch)]
      | None \<Rightarrow> [])"

text \<open>
  The order that the specification words for the detector, to compare the code with: the
  calls of the structured tags, then the natural-language calls of every tool, then the
  slash calls of every tool.
\<close>

definition specified_order ::
  "(string \<Rightarrow> json option) \<Rightarrow> registry \<Rightarrow> string \<Rightarrow> ToolCall list" where
  "specified_order JSON_parse tools input =
     tool_tag_loop JSON_parse input 0 []
     @ concat (map (\<lambda>toolName. use_calls toolName input) (tool_keys tools))
     @ concat (map (\<lambda>toolName. slash_calls toolName input) (tool_keys tools))"

text \<open>Texts for the examples.\<close>

definition slash_then_use :: string where
  "slash_then_use = ''/search_wikipedia cats. Use plan_task tool with a shed.''"

definition twice_use :: string where
  "twice_use = ''Use search_wikipedia tool with cats. Use search_wikipedia tool with dogs.''"

definition three_forms :: string where
  "three_forms =
     ''/plan_task a shed. Use search_wikipedia tool with cats. [TOOL]'' @ sample_body @ ''[/TOOL]''"

section \<open>Evaluation\<close>

text \<open>
  Case folding of the printable characters of ASCII and the line feed, computed once, the
  equations by which the examples evaluate the per-tool expressions and the completion
  test, and the values of the sample registry, texts and answers.
\<close>

lemma canonicalize_ascii:
  "canonicalize (CHR 0x0A) = CHR 0x0A" "canonicalize (CHR '' '') = CHR '' ''"
  "canonicalize (CHR ''!'') = CHR ''!''" "canonicalize (CHR 0x22) = CHR 0x22"
  "canonicalize (CHR ''#'') = CHR ''#''" "canonicalize (CHR ''$'') = CHR ''$''"
  "canonicalize (CHR ''%'') = CHR ''%''" "canonicalize (CHR ''&'') = CHR ''&''"
  "canonicalize (CHR 0x27) = CHR 0x27" "canonicalize (CHR ''('') = CHR ''(''"
  "canonicalize (CHR '')'') = CHR '')''" "canonicalize (CHR ''*'') = CHR ''*''"
  "canonicalize (CHR ''+'') = CHR ''+''" "canonicalize (CHR '','') = CHR '',''"
  "canonicalize (CHR ''-'') = CHR ''-''" "canonicalize (CHR ''.'') = CHR ''.''"
  "canonicalize (CHR ''/'') = CHR ''/''" "canonicalize (CHR ''0'') = CHR ''0''"
  "canonicalize (CHR ''1'') = CHR ''1''" "canonicalize (CHR ''2'') = CHR ''2''"
  "canonicalize (CHR ''3'') = CHR ''3''" "canonicalize (CHR ''4'') = CHR ''4''"
  "canonicalize (CHR ''5'') = CHR ''5''" "canonicalize (CHR ''6'') = CHR ''6''"
  "canonicalize (CHR ''7'') = CHR ''7''" "canonicalize (CHR ''8'') = CHR ''8''"
  "canonicalize (CHR ''9'') = CHR ''9''" "canonicalize (CHR '':'') = CHR '':''"
  "canonicalize (CHR '';'') = CHR '';''" "canonicalize (CHR ''<'') = CHR ''<''"
  "canonicalize (CHR ''='') = CHR ''=''" "canonicalize (CHR ''>'') = CHR ''>''"
  "canonicalize (CHR ''?'') = CHR ''?''" "canonicalize (CHR ''@'') = CHR ''@''"
  "canonicalize (CHR ''A'') = CHR ''A''" "canonicalize (CHR ''B'') = CHR ''B''"
  "canonicalize (CHR ''C'') = CHR ''C''" "canonicalize (CHR ''D'') = CHR ''D''"
  "canonicalize (CHR ''E'') = CHR ''E''" "canonicalize (CHR ''F'') = CHR ''F''"
  "canonicalize (CHR ''G'') = CHR ''G''" "canonicalize (CHR ''H'') = CHR ''H''"
  "canonicalize (CHR ''I'') = CHR ''I''" "canonicalize (CHR ''J'') = CHR ''J''"
  "canonicalize (CHR ''K'') = CHR ''K''" "canonicalize (CHR ''L'') = CHR ''L''"
  "canonicalize (CHR ''M'') = CHR ''M''" "canonicalize (CHR ''N'') = CHR ''N''"
  "canonicalize (CHR ''O'') = CHR ''O''" "canonicalize (CHR ''P'') = CHR ''P''"
  "canonicalize (CHR ''Q'') = CHR ''Q''" "canonicalize (CHR ''R'') = CHR ''R''"
  "canonicalize (CHR ''S'') = CHR ''S''" "canonicalize (CHR ''T'') = CHR ''T''"
  "canonicalize (CHR ''U'') = CHR ''U''" "canonicalize (CHR ''V'') = CHR ''V''"
  "canonicalize (CHR ''W'') = CHR ''W''" "canonicalize (CHR ''X'') = CHR ''X''"
  "canonicalize (CHR ''Y'') = CHR ''Y''" "canonicalize (CHR ''Z'') = CHR ''Z''"
  "canonicalize (CHR ''['') = CHR ''[''" "canonicalize (CHR 0x5C) = CHR 0x5C"
  "canonicalize (CHR '']'') = CHR '']''" "canonicalize (CHR ''^'') = CHR ''^''"
  "canonicalize (CHR ''_'') = CHR ''_''" "canonicalize (CHR 0x60) = CHR 0x60"
  "canonicalize (CHR ''a'') = CHR ''A''" "canonicalize (CHR ''b'') = CHR ''B''"
  "canonicalize (CHR ''c'') = CHR ''C''" "canonicalize (CHR ''d'') = CHR ''D''"
  "canonicalize (CHR ''e'') = CHR ''E''" "canonicalize (CHR ''f'') = CHR ''F''"
  "canonicalize (CHR ''g'') = CHR ''G''" "canonicalize (CHR ''h'') = CHR ''H''"
  "canonicalize (CHR ''i'') = CHR ''I''" "canonicalize (CHR ''j'') = CHR ''J''"
  "canonicalize (CHR ''k'') = CHR ''K''" "canonicalize (CHR ''l'') = CHR ''L''"
  "canonicalize (CHR ''m'') = CHR ''M''" "canonicalize (CHR ''n'') = CHR ''N''"
  "canonicalize (CHR ''o'') = CHR ''O''" "canonicalize (CHR ''p'') = CHR ''P''"
  "canonicalize (CHR ''q'') = CHR ''Q''" "canonicalize (CHR ''r'') = CHR ''R''"
  "canonicalize (CHR ''s'') = CHR ''S''" "canonicalize (CHR ''t'') = CHR ''T''"
  "canonicalize (CHR ''u'') = CHR ''U''" "canonicalize (CHR ''v'') = CHR ''V''"
  "canonicalize (CHR ''w'') = CHR ''W''" "canonicalize (CHR ''x'') = CHR ''X''"
  "canonicalize (CHR ''y'') = CHR ''Y''" "canonicalize (CHR ''z'') = CHR ''Z''"
  "canonicalize (CHR ''{'') = CHR ''{''" "canonicalize (CHR ''|'') = CHR ''|''"
  "canonicalize (CHR ''}'') = CHR ''}''" "canonicalize (CHR ''~'') = CHR ''~''"
  by (simp_all add: canonicalize_def lower_case_letters_def upper_case_letters_def)


lemmas regex_eval =
  usePattern_exec_def slashPattern_exec_def match_here_def canonicalize_ascii query_tail_def
  is_white_space_def lazy_dot_def is_line_terminator_def


lemma sample_registry_eq:
  "sample_registry =
     [(''search_wikipedia'', echo_tool ''search_wikipedia''), (''plan_task'', failing_tool ''plan_task'')]"
  by (simp add: sample_registry_def registerTool_def echo_tool_def failing_tool_def)

lemma sample_registry_literal: "\<forall>n \<in> set (tool_keys sample_registry). literal_name n"
  by (simp add: sample_registry_eq tool_keys_def literal_name_def regex_syntax_chars_def)

lemma three_forms_tag:
  "toolRegex_exec three_forms 0 = Some (sample_body, 129)"
  "toolRegex_exec three_forms 129 = None"
  by (simp_all add: three_forms_def sample_body_def DQ_def toolRegex_exec_def startsWith_def)

lemma three_forms_patterns:
  "usePattern_exec ''search_wikipedia'' three_forms = Some ''cats''"
  "slashPattern_exec ''search_wikipedia'' three_forms = None"
  "usePattern_exec ''plan_task'' three_forms = None"
  "slashPattern_exec ''plan_task'' three_forms = Some ''a shed''"
  by (simp_all add: three_forms_def sample_body_def DQ_def regex_eval)

lemma slash_then_use_patterns:
  "toolRegex_exec slash_then_use 0 = None"
  "usePattern_exec ''search_wikipedia'' slash_then_use = None"
  "slashPattern_exec ''search_wikipedia'' slash_then_use = Some ''cats''"
  "usePattern_exec ''plan_task'' slash_then_use = Some ''a shed''"
  "slashPattern_exec ''plan_task'' slash_then_use = None"
  by (simp_all add: slash_then_use_def toolRegex_exec_def startsWith_def regex_eval)

lemma twice_use_patterns:
  "toolRegex_exec twice_use 0 = None"
  "usePattern_exec ''search_wikipedia'' twice_use = Some ''cats''"
  "slashPattern_exec ''search_wikipedia'' twice_use = None"
  "usePattern_exec ''plan_task'' twice_use = None"
  "slashPattern_exec ''plan_task'' twice_use = None"
  "usePattern_exec ''search_wikipedia'' (drop 37 twice_use) = Some ''dogs''"
  by (simp_all add: twice_use_def toolRegex_exec_def startsWith_def regex_eval)

lemma tool_request_patterns:
  "toolRegex_exec ''/search_wikipedia cats'' 0 = None"
  "usePattern_exec ''search_wikipedia'' ''/search_wikipedia cats'' = None"
  "slashPattern_exec ''search_wikipedia'' ''/search_wikipedia cats'' = Some ''cats''"
  "usePattern_exec ''plan_task'' ''/search_wikipedia cats'' = None"
  "slashPattern_exec ''plan_task'' ''/search_wikipedia cats'' = None"
  by (simp_all add: toolRegex_exec_def startsWith_def regex_eval)

lemma unprintable_request_patterns:
  "toolRegex_exec unprintable_request 0 = Some (unprintable_body, 62)"
  "toolRegex_exec unprintable_request 62 = None"
  "usePattern_exec ''search_wikipedia'' unprintable_request = None"
  "slashPattern_exec ''search_wikipedia'' unprintable_request = None"
  "usePattern_exec ''plan_task'' unprintable_request = None"
  "slashPattern_exec ''plan_task'' unprintable_request = None"
  by (simp_all add: unprintable_request_def unprintable_body_def DQ_def toolRegex_exec_def
      startsWith_def regex_eval)

lemma trims: "trim ''cats'' = ''cats''" "trim ''a shed'' = ''a shed''"
  by (simp_all add: trim_def is_white_space_def)



section \<open>Properties of the request detector\<close>

text \<open>For literal names nothing in the loop over the names throws.\<close>

lemma tool_name_loop_literal:
  assumes "\<forall>n \<in> set availableTools. literal_name n"
  shows "tool_name_loop RegExp_exec availableTools input toolCalls =
           Inr (toolCalls
                @ concat (map (\<lambda>toolName. use_calls toolName input @ slash_calls toolName input)
                            availableTools))"
  using assms
  by (induction availableTools arbitrary: toolCalls)
     (simp_all add: usePattern_def slashPattern_def use_calls_def slash_calls_def
        split: option.splits)

lemma detectToolRequests_literal:
  assumes "\<forall>n \<in> set (tool_keys tools). literal_name n"
  shows "detectToolRequests JSON_parse RegExp_exec tools input =
           Inr (tool_tag_loop JSON_parse input 0 []
                @ concat (map (\<lambda>toolName. use_calls toolName input @ slash_calls toolName input)
                            (tool_keys tools)))"
  by (simp add: detectToolRequests_def tool_name_loop_literal [OF assms])

lemma push_parsed_append:
  "push_parsed JSON_parse body toolCalls = toolCalls @ push_parsed JSON_parse body []"
  by (simp add: push_parsed_def split: option.splits)

lemma tool_tag_loop_append:
  "tool_tag_loop JSON_parse input lastIndex toolCalls =
     toolCalls @ tool_tag_loop JSON_parse input lastIndex []"
proof (induction "length input - lastIndex" arbitrary: lastIndex toolCalls rule: less_induct)
  case less
  show ?case
  proof (cases "toolRegex_exec input lastIndex")
    case None
    then show ?thesis by (simp add: tool_tag_loop.simps)
  next
    case (Some found)
    obtain body li where found: "found = (body, li)" by (cases found)
    with Some have exec: "toolRegex_exec input lastIndex = Some (body, li)" by simp
    from toolRegex_exec_advances [OF exec]
    have smaller: "length input - li < length input - lastIndex" by auto
    have "tool_tag_loop JSON_parse input lastIndex toolCalls =
            tool_tag_loop JSON_parse input li (push_parsed JSON_parse body toolCalls)"
      using exec by (subst tool_tag_loop.simps) simp
    also have "\<dots> = push_parsed JSON_parse body toolCalls
                    @ tool_tag_loop JSON_parse input li []"
      by (rule less [OF smaller])
    also have "\<dots> = toolCalls @ (push_parsed JSON_parse body []
                                 @ tool_tag_loop JSON_parse input li [])"
      using push_parsed_append [of JSON_parse body toolCalls] by simp
    also have "push_parsed JSON_parse body [] @ tool_tag_loop JSON_parse input li []
                 = tool_tag_loop JSON_parse input li (push_parsed JSON_parse body [])"
      by (rule less [OF smaller, symmetric])
    also have "\<dots> = tool_tag_loop JSON_parse input lastIndex []"
      using exec by (subst (2) tool_tag_loop.simps) simp
    finally show ?thesis .
  qed
qed

lemma tool_tag_loop_step:
  assumes "toolRegex_exec input lastIndex = Some (body, li)"
  shows "tool_tag_loop JSON_parse input lastIndex [] =
           push_parsed JSON_parse body [] @ tool_tag_loop JSON_parse input li []"
proof -
  have "tool_tag_loop JSON_parse input lastIndex [] =
          tool_tag_loop JSON_parse input li (push_parsed JSON_parse body [])"
    using assms by (subst tool_tag_loop.simps) simp
  then show ?thesis
    using tool_tag_loop_append [of JSON_parse input li "push_parsed JSON_parse body []"]
    by simp
qed

lemma tool_tag_loop_no_json: "tool_tag_loop no_json input lastIndex toolCalls = toolCalls"
proof (induction "length input - lastIndex" arbitrary: lastIndex rule: less_induct)
  case less
  show ?case
  proof (cases "toolRegex_exec input lastIndex")
    case None
    then show ?thesis by (simp add: tool_tag_loop.simps)
  next
    case (Some found)
    obtain body li where "found = (body, li)" by (cases found)
    with Some have exec: "toolRegex_exec input lastIndex = Some (body, li)" by simp
    from toolRegex_exec_advances [OF exec]
    have "length input - li < length input - lastIndex" by auto
    from less [OF this] exec show ?thesis
      by (subst tool_tag_loop.simps) (simp add: push_parsed_def no_json_def)
  qed
qed

lemma detect_sample_registry:
  "detectToolRequests JSON_parse RegExp_exec sample_registry input =
     Inr (tool_tag_loop JSON_parse input 0 []
          @ use_calls ''search_wikipedia'' input @ slash_calls ''search_wikipedia'' input
          @ use_calls ''plan_task'' input @ slash_calls ''plan_task'' input)"
  unfolding detectToolRequests_literal [OF sample_registry_literal]
  by (simp add: sample_registry_eq tool_keys_def)

lemma detect_sample:
  "detectToolRequests no_json RegExp_exec sample_registry ''/search_wikipedia cats''
     = Inr [query_call ''search_wikipedia'' ''cats'']"
  by (simp add: detect_sample_registry tool_tag_loop_no_json use_calls_def slash_calls_def
      tool_request_patterns trims)

lemma detect_unprintable:
  "detectToolRequests unprintable_parse RegExp_exec sample_registry unprintable_request
     = Inr [\<lparr>call_name = unprintable_name,
              call_parameters = JObj [(''a'', JNum (safe_integer_of 1))]\<rparr>]"
proof -
  have "tool_tag_loop unprintable_parse unprintable_request 0 [] =
          [\<lparr>call_name = unprintable_name,
            call_parameters = JObj [(''a'', JNum (safe_integer_of 1))]\<rparr>]"
    by (simp add: tool_tag_loop.simps unprintable_request_patterns push_parsed_def
        unprintable_parse_def unprintable_name_def)
  then show ?thesis
    by (simp add: detect_sample_registry use_calls_def slash_calls_def
        unprintable_request_patterns)
qed

text \<open>
  Claim C1 fails on the code. The text \<open>twice_use\<close> asks for the same tool twice in the
  natural-language form; the second request is a match of the expression on its own (the
  text from its start on matches), yet the detector returns one call, for the first
  request: each per-tool expression is run once, so only its leftmost match is collected.
\<close>

theorem detectToolRequests_collects_first_match_only:
  "detectToolRequests no_json RegExp_exec sample_registry twice_use
     = Inr [query_call ''search_wikipedia'' ''cats'']
   \<and> usePattern_exec ''search_wikipedia'' (drop 37 twice_use) = Some ''dogs''"
  by (simp add: detect_sample_registry tool_tag_loop_no_json use_calls_def slash_calls_def
      twice_use_patterns trims)

text \<open>
  Claim C2, as the code has it. The list starts with the calls of the structured tags,
  those of a tag before those of the tags that follow it in the text; after them, for
  each registered name in the order of the registry, come that tool's natural-language
  call and then that tool's slash call. The registered names are taken to be free of the
  syntax of regular expressions.
\<close>

theorem detectToolRequests_order:
  assumes "\<forall>n \<in> set (tool_keys tools). literal_name n"
  shows "detectToolRequests JSON_parse RegExp_exec tools input =
           Inr (tool_tag_loop JSON_parse input 0 []
                @ concat (map (\<lambda>toolName. use_calls toolName input @ slash_calls toolName input)
                            (tool_keys tools)))
         \<and> (\<forall>lastIndex body li.
               toolRegex_exec input lastIndex = Some (body, li) \<longrightarrow>
               lastIndex < li \<and>
               tool_tag_loop JSON_parse input lastIndex [] =
                 push_parsed JSON_parse body [] @ tool_tag_loop JSON_parse input li [])"
  using toolRegex_exec_advances tool_tag_loop_step
  by (simp add: detectToolRequests_literal [OF assms])

theorem detectToolRequests_order_witness:
  "detectToolRequests sample_parse refusing_RegExp sample_registry three_forms =
     Inr [\<lparr>call_name = JStr ''analyze_text'',
           call_parameters = JObj [(''type'', JStr ''keywords'')]\<rparr>,
          query_call ''search_wikipedia'' ''cats'',
          query_call ''plan_task'' ''a shed'']"
proof -
  have tags: "tool_tag_loop sample_parse three_forms 0 [] =
                [\<lparr>call_name = JStr ''analyze_text'',
                  call_parameters = JObj [(''type'', JStr ''keywords'')]\<rparr>]"
    by (simp add: tool_tag_loop.simps three_forms_tag push_parsed_def sample_parse_def)
  from detectToolRequests_order
    [OF sample_registry_literal, where JSON_parse = sample_parse
       and RegExp_exec = refusing_RegExp and input = three_forms]
  have "detectToolRequests sample_parse refusing_RegExp sample_registry three_forms =
          Inr (tool_tag_loop sample_parse three_forms 0 []
               @ concat (map (\<lambda>toolName. use_calls toolName three_forms
                                           @ slash_calls toolName three_forms)
                           (tool_keys sample_registry)))"
    by (rule conjunct1)
  then show ?thesis
    by (simp add: tags trims sample_registry_eq tool_keys_def use_calls_def slash_calls_def
        three_forms_patterns)
qed

text \<open>
  The order that claim C2 states is not the order of the code. In a text whose slash
  command names the first registered tool and whose natural-language request names the
  second, the code lists the slash call first, where the stated order has the
  natural-language call first.
\<close>

theorem detectToolRequests_not_in_specified_order:
  "detectToolRequests no_json refusing_RegExp sample_registry slash_then_use =
     Inr [query_call ''search_wikipedia'' ''cats'', query_call ''plan_task'' ''a shed'']
   \<and> specified_order no_json sample_registry slash_then_use =
     [query_call ''plan_task'' ''a shed'', query_call ''search_wikipedia'' ''cats'']
   \<and> detectToolRequests no_json refusing_RegExp sample_registry slash_then_use
     \<noteq> Inr (specified_order no_json sample_registry slash_then_use)"
proof -
  have code: "detectToolRequests no_json refusing_RegExp sample_registry slash_then_use =
                Inr [query_call ''search_wikipedia'' ''cats'', query_call ''plan_task'' ''a shed'']"
    by (simp add: detect_sample_registry tool_tag_loop_no_json use_calls_def slash_calls_def
        slash_then_use_patterns trims)
  have spec: "specified_order no_json sample_registry slash_then_use =
                [query_call ''plan_task'' ''a shed'', query_call ''search_wikipedia'' ''cats'']"
    by (simp add: specified_order_def tool_tag_loop_no_json sample_registry_eq tool_keys_def
        use_calls_def slash_calls_def slash_then_use_patterns trims)
  show ?thesis
    unfolding code spec by (simp add: query_call_def)
qed

section \<open>Properties of the tool invoker\<close>








lemma chain_sample:
  "processToolChain sample_registry [query_call ''search_wikipedia'' ''cats'']
     = Inr [''[TOOL_RESULT:search_wikipedia]{'' @ DQ @ ''query'' @ DQ @ '':'' @ DQ @ ''cats'' @ DQ
            @ ''}[/TOOL_RESULT]'']"
  by (simp add: processToolChain_def processToolCall_def sample_registry_eq query_call_def
      echo_tool_def stringified_def quote_def quote_char_def DQ_def)

lemma chain_unprintable:
  "processToolChain sample_registry
     [\<lparr>call_name = unprintable_name,
       call_parameters = JObj [(''a'', JNum (safe_integer_of 1))]\<rparr>] = Inl TypeError"
  by (simp add: processToolChain_def processToolCall_def sample_registry_eq
      unprintable_name_def)




lemma tool_keys_registerTool:
  "tool_keys (registerTool tool tools) =
     (if name tool \<in> set (tool_keys tools) then tool_keys tools
      else tool_keys tools @ [name tool])"
  unfolding tool_keys_def registerTool_def
  by (induction tools) auto




section \<open>Properties of the conversation driver\<close>





text \<open>
  Claim C8, as the code has it. The last message of a non-empty history yields at least
  one tool call. When the tool chain returns its result blocks, exactly one body is
  posted to the backend, and it is the history followed by one system message whose
  content is the text \<^verbatim>\<open>Tool results: \<close> and then the result blocks joined by line
  feeds. When the tool chain throws, \<open>chatCompletion\<close> throws the same exception, and
  nothing is posted.
\<close>

theorem chatCompletion_posts_tool_results:
  assumes "messages < length (arrays w)"
    and "arrays w ! messages \<noteq> []"
    and "detectToolRequests JSON_parse RegExp_exec tools (content (last (arrays w ! messages)))
           = Inr toolCalls"
    and "toolCalls \<noteq> []"
  shows "(\<forall>results. processToolChain tools toolCalls = Inr results \<longrightarrow>
            requests (snd (chatCompletion JSON_parse RegExp_exec backend tools messages w)) =
              requests w @
              [arrays w ! messages @
               [\<lparr>role = System, content = ''Tool results: '' @ join LF results\<rparr>]])
       \<and> (\<forall>e. processToolChain tools toolCalls = Inl e \<longrightarrow>
            chatCompletion JSON_parse RegExp_exec backend tools messages w = (Inl e, w))"
  using assms
  by (auto simp: chatCompletion_def alloc_def Let_def nth_append split: option.splits)

theorem chatCompletion_posts_tool_results_witness:
  "requests (snd (chatCompletion no_json refusing_RegExp (constant_backend ''ok'')
                    sample_registry 0 tool_request_world)) =
     [[\<lparr>role = User, content = ''/search_wikipedia cats''\<rparr>,
       \<lparr>role = System,
        content = ''Tool results: [TOOL_RESULT:search_wikipedia]{'' @ DQ @ ''query'' @ DQ @ '':''
                  @ DQ @ ''cats'' @ DQ @ ''}[/TOOL_RESULT]''\<rparr>]]
   \<and> chatCompletion unprintable_parse refusing_RegExp (constant_backend ''ok'') sample_registry 0
       \<lparr>arrays = [[\<lparr>role = User, content = unprintable_request\<rparr>]], requests = []\<rparr>
     = (Inl TypeError,
        \<lparr>arrays = [[\<lparr>role = User, content = unprintable_request\<rparr>]], requests = []\<rparr>)"
proof -
  have valid: "0 < length (arrays tool_request_world)"
    and nonempty: "arrays tool_request_world ! 0 \<noteq> []"
    by (simp_all add: tool_request_world_def)
  have detected: "detectToolRequests no_json refusing_RegExp sample_registry
                    (content (last (arrays tool_request_world ! 0)))
                  = Inr [query_call ''search_wikipedia'' ''cats'']"
    by (simp add: tool_request_world_def detect_sample)
  have some: "[query_call ''search_wikipedia'' ''cats''] \<noteq> []"
    by simp
  from chatCompletion_posts_tool_results
    [where backend = "constant_backend ''ok''", OF valid nonempty detected some, THEN conjunct1,
     rule_format, OF chain_sample]
  have posted: "requests (snd (chatCompletion no_json refusing_RegExp (constant_backend ''ok'')
                    sample_registry 0 tool_request_world)) =
     [[\<lparr>role = User, content = ''/search_wikipedia cats''\<rparr>,
       \<lparr>role = System,
        content = ''Tool results: [TOOL_RESULT:search_wikipedia]{'' @ DQ @ ''query'' @ DQ @ '':''
                  @ DQ @ ''cats'' @ DQ @ ''}[/TOOL_RESULT]''\<rparr>]]"
    by (simp add: tool_request_world_def)
  let ?w = "\<lparr>arrays = [[\<lparr>role = User, content = unprintable_request\<rparr>]], requests = []\<rparr>"
  have valid': "0 < length (arrays ?w)" and nonempty': "arrays ?w ! 0 \<noteq> []"
    by simp_all
  have detected': "detectToolRequests unprintable_parse refusing_RegExp sample_registry
                     (content (last (arrays ?w ! 0)))
                   = Inr [\<lparr>call_name = unprintable_name,
                           call_parameters = JObj [(''a'', JNum (safe_integer_of 1))]\<rparr>]"
    by (simp add: detect_unprintable)
  have some': "[\<lparr>call_name = unprintable_name,
                 call_parameters = JObj [(''a'', JNum (safe_integer_of 1))]\<rparr>] \<noteq> []"
    by simp
  from chatCompletion_posts_tool_results
    [where backend = "constant_backend ''ok''", OF valid' nonempty' detected' some',
     THEN conjunct2, rule_format, OF chain_unprintable]
  have "chatCompletion unprintable_parse refusing_RegExp (constant_backend ''ok'')
          sample_registry 0 ?w = (Inl TypeError, ?w)" .
  with posted show ?thesis by simp
qed

text \<open>
  The content of that message is not the bare join of the result blocks, as claim C8 has
  it: for the history that holds the one message \<^verbatim>\<open>/search_wikipedia cats\<close> a call is
  detected, the chain returns one block for it, and the content of the system message
  that is posted differs from the joined blocks.
\<close>

theorem chatCompletion_content_is_not_bare_join:
  "detectToolRequests no_json refusing_RegExp sample_registry ''/search_wikipedia cats''
     = Inr [query_call ''search_wikipedia'' ''cats'']
   \<and> processToolChain sample_registry [query_call ''search_wikipedia'' ''cats'']
     = Inr [''[TOOL_RESULT:search_wikipedia]{'' @ DQ @ ''query'' @ DQ @ '':'' @ DQ @ ''cats'' @ DQ
            @ ''}[/TOOL_RESULT]'']
   \<and> content (last (last (requests (snd (chatCompletion no_json refusing_RegExp
                                           (constant_backend ''ok'') sample_registry 0
                                           tool_request_world)))))
     \<noteq> join LF [''[TOOL_RESULT:search_wikipedia]{'' @ DQ @ ''query'' @ DQ @ '':'' @ DQ @ ''cats''
                  @ DQ @ ''}[/TOOL_RESULT]'']"
  by (simp add: chatCompletion_def tool_request_world_def detect_sample chain_sample alloc_def
      constant_backend_def Let_def)

lemma chatCompletion_arrays:
  "\<exists>new. arrays (snd (chatCompletion JSON_parse RegExp_exec backend tools messages w))
            = arrays w @ new"
  by (auto simp: chatCompletion_def alloc_def Let_def split: option.splits sum.splits)

text \<open>
  Claim C10. \<open>chatCompletion\<close> leaves every array that exists when it is called as it was,
  the caller's message list among them: the message with the tool results goes into an
  array of its own. This holds on every path, also when the call throws.
\<close>

theorem chatCompletion_keeps_callers_list:
  assumes "messages < length (arrays w)"
  shows "arrays (snd (chatCompletion JSON_parse RegExp_exec backend tools messages w)) ! messages
           = arrays w ! messages
         \<and> take (length (arrays w))
             (arrays (snd (chatCompletion JSON_parse RegExp_exec backend tools messages w)))
           = arrays w"
proof -
  obtain new where
    "arrays (snd (chatCompletion JSON_parse RegExp_exec backend tools messages w))
       = arrays w @ new"
    using chatCompletion_arrays by blast
  with assms show ?thesis by (simp add: nth_append)
qed

theorem chatCompletion_keeps_callers_list_witness:
  "arrays (snd (chatCompletion no_json refusing_RegExp (constant_backend ''ok'')
                  sample_registry 0 tool_request_world)) ! 0
     = [\<lparr>role = User, content = ''/search_wikipedia cats''\<rparr>]
   \<and> length (arrays (snd (chatCompletion no_json refusing_RegExp (constant_backend ''ok'')
                             sample_registry 0 tool_request_world))) = 2"
proof -
  have "0 < length (arrays tool_request_world)"
    by (simp add: tool_request_world_def)
  from chatCompletion_keeps_callers_list
    [OF this, of no_json refusing_RegExp "constant_backend ''ok''" sample_registry]
  have "arrays (snd (chatCompletion no_json refusing_RegExp (constant_backend ''ok'')
                  sample_registry 0 tool_request_world)) ! 0
     = [\<lparr>role = User, content = ''/search_wikipedia cats''\<rparr>]"
    by (simp add: tool_request_world_def)
  moreover have "length (arrays (snd (chatCompletion no_json refusing_RegExp
                                        (constant_backend ''ok'') sample_registry 0
                                        tool_request_world))) = 2"
    by (simp add: chatCompletion_def tool_request_world_def detect_sample chain_sample alloc_def
        constant_backend_def Let_def)
  ultimately show ?thesis by simp
qed

section \<open>Properties of the prompt composer\<close>

lemma stringified_protocols_starts_with_brace:
  "\<exists>rest. stringified (protocols_json p) = CHR ''{'' # rest"
  by (simp add: stringified_def protocols_json_def)

lemma recognized_modes:
  "map fst (systemPrompts tools mode)
     = [''general'', ''writing'', ''research'', ''coding'', ''pdf'', ''web'']"
  by (simp add: systemPrompts_def)

lemma getSystemPrompt_general:
  "getSystemPrompt tools ''general'' =
     Prompt (general_head @ toolInstructions tools @ '' Here are your protocols: ''
             @ stringified (protocols_json general_protocol))"
proof -
  have "protocols_echo tools ''general'' = stringified (protocols_json general_protocol)"
    by (simp add: protocols_echo_def getProtocols_def get_property_def)
  moreover have "general_head \<noteq> []"
    by (simp add: general_head_def)
  ultimately show ?thesis
    by (simp add: getSystemPrompt_def systemPrompts_def get_property_def)
qed

lemma getSystemPrompt_unrecognized:
  assumes "mode \<notin> set [''general'', ''writing'', ''research'', ''coding'', ''pdf'', ''web'']"
    and "mode \<notin> set object_prototype_keys"
  shows "getSystemPrompt tools mode =
           Prompt (general_head @ toolInstructions tools @ '' Here are your protocols: ''
                   @ ''undefined'')"
proof -
  from assms(1) have "mode \<notin> fst ` set (systemPrompts tools mode)"
    using recognized_modes [of tools mode] by (metis list.set_map)
  then have "map_of (systemPrompts tools mode) mode = None"
    by (simp add: map_of_eq_None_iff)
  with assms(2) have "get_property (systemPrompts tools mode) mode = Undefined"
    by (simp add: get_property_def)
  moreover from assms have "protocols_echo tools mode = ''undefined''"
    by (simp add: protocols_echo_def getProtocols_def get_property_def)
  ultimately show ?thesis
    by (simp add: getSystemPrompt_def)
qed

text \<open>
  Claim C3 fails on the code. For a mode that is none of the six and no inherited member
  of the object, the lookup falls back to the general template, but the template's echo
  of the protocols was built from the mode as given: it reads \<^verbatim>\<open>undefined\<close>, where the
  prompt of the mode \<^verbatim>\<open>general\<close> has the serialised general protocol. The two prompts
  agree up to the echo and differ there, for every registry.
\<close>

theorem getSystemPrompt_unrecognized_differs_from_general:
  assumes "mode \<notin> set [''general'', ''writing'', ''research'', ''coding'', ''pdf'', ''web'']"
    and "mode \<notin> set object_prototype_keys"
  shows "getSystemPrompt tools mode =
           Prompt (general_head @ toolInstructions tools @ '' Here are your protocols: ''
                   @ ''undefined'')
         \<and> getSystemPrompt tools ''general'' =
           Prompt (general_head @ toolInstructions tools @ '' Here are your protocols: ''
                   @ stringified (protocols_json general_protocol))
         \<and> getSystemPrompt tools mode \<noteq> getSystemPrompt tools ''general''"
proof -
  obtain rest where "stringified (protocols_json general_protocol) = CHR ''{'' # rest"
    using stringified_protocols_starts_with_brace by blast
  then have "''undefined'' \<noteq> stringified (protocols_json general_protocol)"
    by simp
  then show ?thesis
    by (simp add: getSystemPrompt_unrecognized [OF assms] getSystemPrompt_general)
qed

theorem getSystemPrompt_unrecognized_differs_from_general_witness:
  "getSystemPrompt sample_registry ''translation'' \<noteq> getSystemPrompt sample_registry ''general''"
proof -
  have "''translation'' \<notin> set [''general'', ''writing'', ''research'', ''coding'', ''pdf'', ''web'']"
    by simp
  moreover have "''translation'' \<notin> set object_prototype_keys"
    by (simp add: object_prototype_keys_def)
  ultimately show ?thesis
    using getSystemPrompt_unrecognized_differs_from_general
      [where mode = "''translation''" and tools = sample_registry]
    by blast
qed

section \<open>Properties of the agentic loop\<close>


















text \<open>
  Claim C9. With a budget of zero or less the loop body is never entered: the world is
  unchanged (nothing is posted to the backend, whatever the backend would answer) and the
  result is the empty string.
\<close>

theorem executeAgenticTask_without_budget:
  assumes "budget \<le> 0"
  shows "executeAgenticTask JSON_parse RegExp_exec backend tools userInput budget w
           = (Inr ([], BudgetExhausted), w)"
  using assms by (simp add: executeAgenticTask_def agentic_loop.simps)

theorem executeAgenticTask_without_budget_witness:
  "executeAgenticTask no_json refusing_RegExp (constant_backend ''Task complete: done'')
     sample_registry ''plan a trip'' (- 2) empty_world
     = (Inr ([], BudgetExhausted), empty_world)"
proof -
  have "(- 2 :: int) \<le> 0" by simp
  from executeAgenticTask_without_budget [OF this] show ?thesis .
qed

end
